theory Spec2Isabelle
  imports Main
begin

section \<open>Data model of the stat visibility engine\<close>

text \<open>
  The engine lives in the React component \<open>PlayerStats\<close>, in the revision with the
  \<open>useRevealedStats\<close> hook and the team/teamDetails pairing; its text, and that of
  \<open>PlayerSearch\<close>, follows the database schema in the file \<open>prisma/schema.prisma\<close> of the
  sources. Its state is held by the parent page \<open>CreateGamePage\<close> as a \<open>StatsConfig\<close>:
  for each of the three namespaces a pair of string arrays. Arrays are lists: order and
  duplicates are kept as the code keeps them. A string is a list of characters, and
  its \<open>length\<close> the number of them.

  A JavaScript object is an association list in the order \<open>Object.keys\<close> enumerates it;
  only the keys matter to the engine, so the value type is a parameter.
\<close>

type_synonym 'v jsobject = "(string \<times> 'v) list"

definition Object_keys :: "'v jsobject \<Rightarrow> string list" where
  "Object_keys obj = map fst obj"

datatype StatType = Info | Hitting | Pitching

record SelectionState =
  selected :: "string list"
  deselected :: "string list"

record StatsConfig =
  info :: SelectionState
  hitting :: SelectionState
  pitching :: SelectionState

text \<open>
  \<open>statsConfig[type]\<close>: the props \<open>selectedInfo\<close>, \<open>deselectedInfo\<close>, ... that the page
  passes to the component are the fields of this state.
\<close>

fun getState :: "StatType \<Rightarrow> StatsConfig \<Rightarrow> SelectionState" where
  "getState Info cfg = info cfg"
| "getState Hitting cfg = hitting cfg"
| "getState Pitching cfg = pitching cfg"

text \<open>
  \<open>handleStatsChange\<close> of the page, passed to the component as \<open>onStatsChange\<close>:
  \<^verbatim>\<open>setStatsConfig(prev => ({ ...prev, [type]: { selected, deselected } }))\<close>.
  The update is functional, so successive calls compose.
\<close>

fun onStatsChange :: "StatType \<Rightarrow> string list \<Rightarrow> string list \<Rightarrow> StatsConfig \<Rightarrow> StatsConfig" where
  "onStatsChange Info sel desel cfg = cfg\<lparr>info := \<lparr>selected = sel, deselected = desel\<rparr>\<rparr>"
| "onStatsChange Hitting sel desel cfg = cfg\<lparr>hitting := \<lparr>selected = sel, deselected = desel\<rparr>\<rparr>"
| "onStatsChange Pitching sel desel cfg = cfg\<lparr>pitching := \<lparr>selected = sel, deselected = desel\<rparr>\<rparr>"

subsection \<open>Display-mapping tables\<close>

text \<open>
  The tables \<open>playerInfoMappings\<close>, \<open>hittingStatMappings\<close> and \<open>pitchingStatMappings\<close> are
  imported from \<open>utils/statMappings\<close>; the engine reads a \<open>label\<close> and an optional numeric
  \<open>order\<close> from an entry. A table is a partial map from keys to entries and is a
  parameter of every function that reads one. \<open>key in mappings\<close> is membership in the
  table's domain (property names that a JavaScript object inherits from its prototype
  are not part of the model), and an entry, being an object, is truthy. Priorities are
  integers.
\<close>

record StatMapping =
  label :: string
  order :: "int option"

type_synonym mappings = "string \<rightharpoonup> StatMapping"

record MappingTables =
  playerInfoMappings :: mappings
  hittingStatMappings :: mappings
  pitchingStatMappings :: mappings

text \<open>\<^verbatim>\<open>mappings[String(a)]?.order || 0\<close>: a missing entry, a missing priority and the
  priority \<open>0\<close> all give \<open>0\<close>.\<close>

definition orderOf :: "mappings \<Rightarrow> string \<Rightarrow> int" where
  "orderOf m k =
     (case m k of
        None \<Rightarrow> 0
      | Some e \<Rightarrow> (case order e of None \<Rightarrow> 0 | Some n \<Rightarrow> n))"

text \<open>
  \<open>getSortedKeys\<close>: the keys of the object that have an entry in the table, sorted with the
  comparator \<open>(a, b) => orderOf a - orderOf b\<close>. \<open>Array.prototype.sort\<close> is stable, and the
  comparator is a total preorder on the keys, so the result is the stable ascending sort
  by \<open>orderOf\<close>, which is what \<open>sort_key\<close> computes.
\<close>

definition getSortedKeys :: "'v jsobject \<Rightarrow> mappings \<Rightarrow> string list" where
  "getSortedKeys obj m =
     sort_key (orderOf m) (filter (\<lambda>key. m key \<noteq> None) (Object_keys obj))"

subsection \<open>Component state\<close>

text \<open>The data the component keeps after a load: \<open>playerInfo\<close> (\<open>null\<close> before the first
  load), the season records, the loading flag and the error message.\<close>

record 'v PlayerStatsState =
  playerInfo :: "'v jsobject option"
  hittingStats :: "'v jsobject list"
  pitchingStats :: "'v jsobject list"
  isLoading :: bool
  error :: "string option"

section \<open>Toggle operations\<close>

text \<open>
  \<open>toggleAttribute(attribute, type)\<close> copies the two arrays of the namespace, moves the
  attribute to the other array and, when the attribute is \<open>team\<close>, moves \<open>teamDetails\<close>
  along. \<open>push\<close> appends; \<open>filter\<close> removes every occurrence.
\<close>

definition toggleAttribute :: "string \<Rightarrow> StatType \<Rightarrow> StatsConfig \<Rightarrow> StatsConfig" where
  "toggleAttribute attribute type cfg =
     (let sel = selected (getState type cfg);
          desel = deselected (getState type cfg)
      in if attribute \<in> set sel then
           (let sel1 = filter (\<lambda>attr. attr \<noteq> attribute) sel;
                desel1 = desel @ [attribute]
            in if attribute = ''team'' then
                 (let desel2 = (if ''teamDetails'' \<notin> set desel1
                                then desel1 @ [''teamDetails''] else desel1);
                      sel2 = filter (\<lambda>attr. attr \<noteq> ''teamDetails'') sel1
                  in onStatsChange type sel2 desel2 cfg)
               else onStatsChange type sel1 desel1 cfg)
         else
           (let desel1 = filter (\<lambda>attr. attr \<noteq> attribute) desel;
                sel1 = sel @ [attribute]
            in if attribute = ''team'' then
                 (let desel2 = filter (\<lambda>attr. attr \<noteq> ''teamDetails'') desel1;
                      sel2 = (if ''teamDetails'' \<notin> set sel1
                              then sel1 @ [''teamDetails''] else sel1)
                  in onStatsChange type sel2 desel2 cfg)
               else onStatsChange type sel1 desel1 cfg))"

text \<open>
  The first half of \<open>handleToggleAll\<close>: the key enumeration of the namespace, empty while
  no record is loaded.
\<close>

definition allKeysOf :: "StatType \<Rightarrow> MappingTables \<Rightarrow> 'v PlayerStatsState \<Rightarrow> string list" where
  "allKeysOf type tables st =
     (case type of
        Info \<Rightarrow> (case playerInfo st of
                   Some pinfo \<Rightarrow> getSortedKeys pinfo (playerInfoMappings tables)
                 | None \<Rightarrow> [])
      | Hitting \<Rightarrow> (case hittingStats st of
                      first # _ \<Rightarrow> getSortedKeys first (hittingStatMappings tables)
                    | [] \<Rightarrow> [])
      | Pitching \<Rightarrow> (case pitchingStats st of
                       first # _ \<Rightarrow> getSortedKeys first (pitchingStatMappings tables)
                     | [] \<Rightarrow> []))"

text \<open>\<open>handleToggleAll(type, selectedKeys)\<close>.\<close>

definition handleToggleAll ::
  "StatType \<Rightarrow> string list \<Rightarrow> MappingTables \<Rightarrow> 'v PlayerStatsState \<Rightarrow> StatsConfig \<Rightarrow> StatsConfig" where
  "handleToggleAll type selectedKeys tables st cfg =
     (let allKeys = allKeysOf type tables st;
          deselectedKeys =
            (if length selectedKeys = 0 then allKeys
             else (let d = filter (\<lambda>key. key \<notin> set selectedKeys) allKeys
                   in if ''team'' \<in> set selectedKeys
                      then filter (\<lambda>key. key \<noteq> ''teamDetails'') d else d))
      in onStatsChange type selectedKeys deselectedKeys cfg)"

section \<open>Initialisation on data load\<close>

text \<open>
  \<open>fetchPlayerData\<close> (from \<open>utils/mlbApi\<close>) is the statistics provider and a parameter of
  the model. A call either throws (an \<open>Error\<close> with a message, or some other value) or
  returns the biographical record, possibly missing, and the two season sequences.
\<close>

datatype thrown = ErrorObject string | OtherValue

record 'v PlayerData =
  data_playerInfo :: "'v jsobject option"
  data_hittingStats :: "'v jsobject list"
  data_pitchingStats :: "'v jsobject list"

datatype 'v fetched = Throws thrown | Returns "'v PlayerData"

text \<open>
  The calls to \<open>onStatsChange\<close> that \<open>loadPlayerData\<close> makes when \<open>configurable\<close> is set. The
  info arrays are written without a test; the hitting and pitching arrays are written
  only when the sequence has a first record and both arrays of the namespace are
  empty. The arrays tested are the props of the component, taken here to be the
  current configuration (no toggle happens between the start of the load and the
  arrival of the data).
\<close>

definition initializeSelections ::
  "MappingTables \<Rightarrow> 'v jsobject \<Rightarrow> 'v PlayerData \<Rightarrow> StatsConfig \<Rightarrow> StatsConfig" where
  "initializeSelections tables pinfo d cfg =
     (let cfg1 = onStatsChange Info [] (Object_keys pinfo) cfg;
          cfg2 =
            (case data_hittingStats d of
               [] \<Rightarrow> cfg1
             | first # _ \<Rightarrow>
                 if length (selected (hitting cfg)) = 0 \<and> length (deselected (hitting cfg)) = 0
                 then (let hittingKeys =
                             filter (\<lambda>key. hittingStatMappings tables key \<noteq> None) (Object_keys first)
                       in onStatsChange Hitting hittingKeys [] cfg1)
                 else cfg1)
      in (case data_pitchingStats d of
            [] \<Rightarrow> cfg2
          | first # _ \<Rightarrow>
              if length (selected (pitching cfg)) = 0 \<and> length (deselected (pitching cfg)) = 0
              then (let pitchingKeys =
                          filter (\<lambda>key. pitchingStatMappings tables key \<noteq> None) (Object_keys first)
                    in onStatsChange Pitching pitchingKeys [] cfg2)
              else cfg2))"

text \<open>
  \<open>loadPlayerData\<close>, run by the effect on \<open>[playerId, configurable]\<close>. A player id of \<open>0\<close> is
  falsy. The result is the component state and the page's configuration after the load.
\<close>

definition loadPlayerData ::
  "(int \<Rightarrow> 'v fetched) \<Rightarrow> MappingTables \<Rightarrow> int \<Rightarrow> bool \<Rightarrow> 'v PlayerStatsState \<Rightarrow> StatsConfig
     \<Rightarrow> 'v PlayerStatsState \<times> StatsConfig" where
  "loadPlayerData fetchPlayerData tables playerId configurable st cfg =
     (if playerId = 0 then
        (st\<lparr>error := Some ''No player ID provided'', isLoading := False\<rparr>, cfg)
      else
        (let st1 = st\<lparr>isLoading := True, error := None\<rparr>
         in case fetchPlayerData playerId of
              Throws (ErrorObject message) \<Rightarrow>
                (st1\<lparr>error := Some message, isLoading := False\<rparr>, cfg)
            | Throws OtherValue \<Rightarrow>
                (st1\<lparr>error := Some ''Failed to load player data'', isLoading := False\<rparr>, cfg)
            | Returns d \<Rightarrow>
                (case data_playerInfo d of
                   None \<Rightarrow>
                     (st1\<lparr>error := Some ''Player information not found'', isLoading := False\<rparr>, cfg)
                 | Some pinfo \<Rightarrow>
                     (let st2 = st1\<lparr>playerInfo := Some pinfo,
                                     hittingStats := data_hittingStats d,
                                     pitchingStats := data_pitchingStats d\<rparr>;
                          cfg' = (if configurable then initializeSelections tables pinfo d cfg
                                  else cfg)
                      in (st2\<lparr>isLoading := False\<rparr>, cfg')))))"

section \<open>The reveal hook\<close>

text \<open>
  \<open>useRevealedStats(stats)\<close> keeps a state \<open>newlyRevealed\<close> and three refs. The sets are HOL
  sets. Of \<open>timeoutRef\<close> the model keeps whether a timer is scheduled and neither fired
  nor cleared; the duration of the timer is not modelled.
\<close>

record RevealHook =
  newlyRevealed :: "string set"
  timeoutPending :: bool
  previousStats :: "string set"
  isMounted :: bool

definition initialHook :: RevealHook where
  "initialHook = \<lparr>newlyRevealed = {}, timeoutPending = False, previousStats = {}, isMounted = False\<rparr>"

text \<open>The first effect (dependencies \<open>[]\<close>): on mount, record the stats as seen.\<close>

definition mountEffect :: "string list \<Rightarrow> RevealHook \<Rightarrow> RevealHook" where
  "mountEffect stats h =
     (if \<not> isMounted h then h\<lparr>isMounted := True, previousStats := set stats\<rparr> else h)"

text \<open>\<^verbatim>\<open>stats.filter(stat => !previousStatsRef.current.has(stat))\<close>\<close>

definition newStatsOf :: "string set \<Rightarrow> string list \<Rightarrow> string list" where
  "newStatsOf previous stats = filter (\<lambda>stat. stat \<notin> previous) stats"

text \<open>
  The second effect (dependencies \<open>[stats]\<close>). Scheduling a timer clears the one before it,
  so one flag is enough.
\<close>

definition statsEffect :: "string list \<Rightarrow> RevealHook \<Rightarrow> RevealHook" where
  "statsEffect stats h =
     (if \<not> isMounted h then h
      else
        (let newStats = newStatsOf (previousStats h) stats;
             h1 = h\<lparr>previousStats := set stats\<rparr>
         in if length newStats > 0
            then h1\<lparr>newlyRevealed := set newStats, timeoutPending := True\<rparr>
            else h1))"

text \<open>The cleanup the second effect returns: \<open>clearTimeout\<close> of the timer, if any.\<close>

definition statsCleanup :: "RevealHook \<Rightarrow> RevealHook" where
  "statsCleanup h = h\<lparr>timeoutPending := False\<rparr>"

text \<open>The timer's callback; it runs only if the timer was not cleared.\<close>

definition timeoutFires :: "RevealHook \<Rightarrow> RevealHook" where
  "timeoutFires h =
     (if timeoutPending h then h\<lparr>newlyRevealed := {}, timeoutPending := False\<rparr> else h)"

text \<open>
  The first render runs both effects in the order they are declared. A later render
  with a new \<open>stats\<close> array runs the cleanup of the second effect and then the effect.
\<close>

definition mountHook :: "string list \<Rightarrow> RevealHook" where
  "mountHook stats = statsEffect stats (mountEffect stats initialHook)"

definition statsChanged :: "string list \<Rightarrow> RevealHook \<Rightarrow> RevealHook" where
  "statsChanged stats h = statsEffect stats (statsCleanup h)"

datatype hookEvent = StatsChanged "string list" | TimeoutFires

fun hookStep :: "RevealHook \<Rightarrow> hookEvent \<Rightarrow> RevealHook" where
  "hookStep h (StatsChanged stats) = statsChanged stats h"
| "hookStep h TimeoutFires = timeoutFires h"

definition runHook :: "string list \<Rightarrow> hookEvent list \<Rightarrow> RevealHook" where
  "runHook stats0 events = foldl hookStep (mountHook stats0) events"

section \<open>Player search\<close>

text \<open>
  The state of \<open>PlayerSearch\<close>, with the log of the queries sent to the provider. The
  provider is a parameter: a request either fails or returns a body whose \<open>people\<close> field
  may be missing. A player is an id and a name.
\<close>

record Player =
  player_id :: int
  fullName :: string

datatype searchResponse = RequestFails | People "Player list option"

record PlayerSearchState =
  popupOpen :: bool
  search :: string
  players :: "Player list"
  loading :: bool
  providerCalls :: "string list"

definition searchPlayers ::
  "(string \<Rightarrow> searchResponse) \<Rightarrow> string \<Rightarrow> PlayerSearchState \<Rightarrow> PlayerSearchState" where
  "searchPlayers provider query s =
     (if length query < 2 then s\<lparr>players := []\<rparr>
      else
        (let s1 = s\<lparr>loading := True, providerCalls := providerCalls s @ [query]\<rparr>
         in case provider query of
              People people \<Rightarrow>
                s1\<lparr>players := (case people of Some ps \<Rightarrow> ps | None \<Rightarrow> []),
                   popupOpen := True, loading := False\<rparr>
            | RequestFails \<Rightarrow> s1\<lparr>players := [], loading := False\<rparr>))"

definition handleSearch ::
  "(string \<Rightarrow> searchResponse) \<Rightarrow> string \<Rightarrow> PlayerSearchState \<Rightarrow> PlayerSearchState" where
  "handleSearch provider v s =
     (let s1 = s\<lparr>search := v\<rparr>
      in if length v \<ge> 2 then searchPlayers provider v s1
         else s1\<lparr>popupOpen := False\<rparr>)"

section \<open>The guesses endpoint\<close>











section \<open>The earlier revision of the component\<close>

text \<open>
  The repository also holds an earlier revision of \<open>PlayerStats\<close>
  (\<open>src/components/PlayerStats.tsx\<close>), without the reveal hook and without the
  team/teamDetails pairing. Its three engine functions are modelled here for
  comparison; the theorems on the engine are about the revision above.
\<close>

definition toggleAttribute_rev0 :: "string \<Rightarrow> StatType \<Rightarrow> StatsConfig \<Rightarrow> StatsConfig" where
  "toggleAttribute_rev0 attribute type cfg =
     (let sel = selected (getState type cfg);
          desel = deselected (getState type cfg)
      in if attribute \<in> set sel
         then onStatsChange type (filter (\<lambda>attr. attr \<noteq> attribute) sel) (desel @ [attribute]) cfg
         else onStatsChange type (sel @ [attribute]) (filter (\<lambda>attr. attr \<noteq> attribute) desel) cfg)"

definition handleToggleAll_rev0 ::
  "StatType \<Rightarrow> string list \<Rightarrow> 'v PlayerStatsState \<Rightarrow> StatsConfig \<Rightarrow> StatsConfig" where
  "handleToggleAll_rev0 type selectedKeys st cfg =
     (let allKeys =
            (case type of
               Info \<Rightarrow> (case playerInfo st of Some pinfo \<Rightarrow> Object_keys pinfo | None \<Rightarrow> [])
             | Hitting \<Rightarrow> (case hittingStats st of first # _ \<Rightarrow> Object_keys first | [] \<Rightarrow> [])
             | Pitching \<Rightarrow> (case pitchingStats st of first # _ \<Rightarrow> Object_keys first | [] \<Rightarrow> []));
          deselectedKeys =
            (if length selectedKeys = 0 then allKeys
             else filter (\<lambda>key. key \<notin> set selectedKeys) allKeys)
      in onStatsChange type selectedKeys deselectedKeys cfg)"

text \<open>The calls to \<open>onStatsChange\<close> of the earlier \<open>loadPlayerData\<close>: every namespace starts
  with all keys of its record selected, and only the selected array is tested.\<close>

definition initializeSelections_rev0 :: "bool \<Rightarrow> 'v PlayerData \<Rightarrow> StatsConfig \<Rightarrow> StatsConfig" where
  "initializeSelections_rev0 configurable d cfg =
     (let cfg1 =
            (case data_playerInfo d of
               None \<Rightarrow> cfg
             | Some pinfo \<Rightarrow>
                 if configurable \<and> length (selected (info cfg)) = 0
                 then onStatsChange Info (Object_keys pinfo) [] cfg else cfg);
          cfg2 =
            (case data_hittingStats d of
               [] \<Rightarrow> cfg1
             | first # _ \<Rightarrow>
                 if configurable \<and> length (selected (hitting cfg)) = 0
                 then onStatsChange Hitting (Object_keys first) [] cfg1 else cfg1)
      in (case data_pitchingStats d of
            [] \<Rightarrow> cfg2
          | first # _ \<Rightarrow>
              if configurable \<and> length (selected (pitching cfg)) = 0
              then onStatsChange Pitching (Object_keys first) [] cfg2 else cfg2))"

section \<open>The pairing property\<close>

text \<open>\<open>teamDetails\<close> is selected if and only if \<open>team\<close> is selected.\<close>

definition paired :: "SelectionState \<Rightarrow> bool" where
  "paired s = ((''teamDetails'' \<in> set (selected s)) = (''team'' \<in> set (selected s)))"

section \<open>Concrete data for evaluation\<close>

text \<open>A small set of tables, one loaded player and two configurations, used to run the
  functions above on explicit inputs. The entry for \<open>note\<close> has no priority.\<close>

definition exampleTables :: MappingTables where
  "exampleTables =
     \<lparr>playerInfoMappings =
        map_of [(''age'', \<lparr>label = ''Age'', order = Some 1\<rparr>),
                (''team'', \<lparr>label = ''Team'', order = Some 2\<rparr>),
                (''teamDetails'', \<lparr>label = ''Team Details'', order = Some 3\<rparr>)],
      hittingStatMappings =
        map_of [(''team'', \<lparr>label = ''Team'', order = Some 2\<rparr>),
                (''teamDetails'', \<lparr>label = ''Team Details'', order = Some 3\<rparr>),
                (''avg'', \<lparr>label = ''AVG'', order = Some 5\<rparr>),
                (''hr'', \<lparr>label = ''HR'', order = Some 4\<rparr>),
                (''note'', \<lparr>label = ''Note'', order = None\<rparr>)],
      pitchingStatMappings =
        map_of [(''era'', \<lparr>label = ''ERA'', order = Some 1\<rparr>),
                (''wins'', \<lparr>label = ''W'', order = Some 2\<rparr>)]\<rparr>"

definition exampleInfo :: "string jsobject" where
  "exampleInfo = [(''age'', ''30''), (''team'', ''NYY''), (''teamDetails'', ''New York Yankees'')]"

definition exampleHitting :: "string jsobject" where
  "exampleHitting = [(''season'', ''2023''), (''avg'', ''.300''), (''hr'', ''30''), (''note'', ''x'')]"

definition examplePitching :: "string jsobject" where
  "examplePitching = [(''wins'', ''3''), (''gameType'', ''R''), (''era'', ''2.10'')]"

definition exampleData :: "string PlayerData" where
  "exampleData = \<lparr>data_playerInfo = Some exampleInfo, data_hittingStats = [exampleHitting],
                   data_pitchingStats = [examplePitching]\<rparr>"

definition exampleLoaded :: "string PlayerStatsState" where
  "exampleLoaded = \<lparr>playerInfo = Some exampleInfo, hittingStats = [exampleHitting],
                     pitchingStats = [examplePitching], isLoading = False, error = None\<rparr>"

definition notLoaded :: "string PlayerStatsState" where
  "notLoaded = \<lparr>playerInfo = None, hittingStats = [], pitchingStats = [],
                 isLoading = True, error = None\<rparr>"

definition emptyConfig :: StatsConfig where
  "emptyConfig = \<lparr>info = \<lparr>selected = [], deselected = []\<rparr>,
                   hitting = \<lparr>selected = [], deselected = []\<rparr>,
                   pitching = \<lparr>selected = [], deselected = []\<rparr>\<rparr>"

definition pairedConfig :: StatsConfig where
  "pairedConfig = \<lparr>info = \<lparr>selected = [''team'', ''teamDetails''], deselected = [''age'']\<rparr>,
                    hitting = \<lparr>selected = [''avg''], deselected = [''hr'', ''note'']\<rparr>,
                    pitching = \<lparr>selected = [], deselected = [''era'', ''wins'']\<rparr>\<rparr>"

definition exampleSearch :: PlayerSearchState where
  "exampleSearch = \<lparr>popupOpen = True, search = ''ab'',
     players = [\<lparr>player_id = 1, fullName = ''Abe''\<rparr>], loading = False, providerCalls = [''ab'']\<rparr>"

definition exampleProvider :: "string \<Rightarrow> searchResponse" where
  "exampleProvider query = People (Some [\<lparr>player_id = 2, fullName = ''Al''\<rparr>])"



lemmas example_defs =
  exampleTables_def exampleInfo_def exampleHitting_def examplePitching_def exampleData_def
  exampleLoaded_def notLoaded_def emptyConfig_def pairedConfig_def

section \<open>Basic facts\<close>

lemma getState_onStatsChange:
  "getState type (onStatsChange type sel desel cfg) = \<lparr>selected = sel, deselected = desel\<rparr>"
  by (cases type) simp_all

lemma getState_onStatsChange_other:
  "type' \<noteq> type \<Longrightarrow> getState type' (onStatsChange type sel desel cfg) = getState type' cfg"
  by (cases type; cases type') simp_all

lemma set_getSortedKeys:
  "set (getSortedKeys obj m) = {key \<in> set (Object_keys obj). m key \<noteq> None}"
  by (simp add: getSortedKeys_def)

lemma set_allKeysOf_Hitting:
  "hittingStats st = first # rest \<Longrightarrow>
   set (allKeysOf Hitting tables st)
     = {key \<in> set (Object_keys first). hittingStatMappings tables key \<noteq> None}"
  by (simp add: allKeysOf_def set_getSortedKeys)

lemma allKeysOf_not_loaded:
  "playerInfo st = None \<Longrightarrow> allKeysOf Info tables st = []"
  "hittingStats st = [] \<Longrightarrow> allKeysOf Hitting tables st = []"
  "pitchingStats st = [] \<Longrightarrow> allKeysOf Pitching tables st = []"
  by (simp_all add: allKeysOf_def)

section \<open>Single and bulk toggles\<close>

lemma selected_toggle_team:
  "set (selected (getState type (toggleAttribute ''team'' type cfg))) \<inter> {''team'', ''teamDetails''}
     = (if ''team'' \<in> set (selected (getState type cfg)) then {} else {''team'', ''teamDetails''})"
  by (auto simp: toggleAttribute_def Let_def getState_onStatsChange)

lemma deselected_toggle_team:
  "set (deselected (getState type (toggleAttribute ''team'' type cfg))) \<inter> {''team'', ''teamDetails''}
     = (if ''team'' \<in> set (selected (getState type cfg)) then {''team'', ''teamDetails''} else {})"
  by (auto simp: toggleAttribute_def Let_def getState_onStatsChange)

lemma selected_toggle_other:
  "k \<noteq> a \<Longrightarrow> a \<noteq> ''team'' \<Longrightarrow>
   (k \<in> set (selected (getState type (toggleAttribute a type cfg))))
     = (k \<in> set (selected (getState type cfg)))"
  by (auto simp: toggleAttribute_def Let_def getState_onStatsChange)

lemma selected_handleToggleAll:
  "selected (getState type (handleToggleAll type ks tables st cfg)) = ks"
  by (simp add: handleToggleAll_def Let_def getState_onStatsChange)

text \<open>
  C1, as stated: from a state in which \<open>teamDetails\<close> and \<open>team\<close> are on the same side,
  every single toggle, also of \<open>teamDetails\<close> itself, and every bulk toggle leaves
  \<open>teamDetails\<close> selected exactly when \<open>team\<close> is. This fails: toggling \<open>teamDetails\<close> moves
  it alone, and a bulk toggle that selects \<open>team\<close> without \<open>teamDetails\<close> leaves
  \<open>teamDetails\<close> in neither array.
\<close>

theorem toggle_teamDetails_unpairs:
  "paired (getState Info pairedConfig)
   \<and> getState Info (toggleAttribute ''teamDetails'' Info pairedConfig)
       = \<lparr>selected = [''team''], deselected = [''age'', ''teamDetails'']\<rparr>
   \<and> \<not> paired (getState Info (toggleAttribute ''teamDetails'' Info pairedConfig))
   \<and> getState Info (handleToggleAll Info [''team''] exampleTables exampleLoaded pairedConfig)
       = \<lparr>selected = [''team''], deselected = [''age'']\<rparr>
   \<and> \<not> paired (getState Info (handleToggleAll Info [''team''] exampleTables exampleLoaded pairedConfig))"
  by (simp add: paired_def toggleAttribute_def handleToggleAll_def allKeysOf_def getSortedKeys_def
      Object_keys_def orderOf_def example_defs)

text \<open>
  C1, amended: after a toggle of \<open>team\<close>, from any state, \<open>teamDetails\<close> is selected exactly
  when \<open>team\<close> is; a toggle of any key other than \<open>teamDetails\<close> keeps the pairing of a
  paired state; and after a bulk toggle the pairing holds exactly when the new
  selection contains both keys or neither.
\<close>

theorem toggle_pairing:
  "paired (getState type (toggleAttribute ''team'' type cfg))
   \<and> (attribute \<noteq> ''teamDetails'' \<and> paired (getState type cfg)
        \<longrightarrow> paired (getState type (toggleAttribute attribute type cfg)))
   \<and> (paired (getState type (handleToggleAll type selectedKeys tables st cfg))
        = ((''teamDetails'' \<in> set selectedKeys) = (''team'' \<in> set selectedKeys)))"
proof -
  have team: "paired (getState type (toggleAttribute ''team'' type cfg))"
    using selected_toggle_team [of type cfg] unfolding paired_def by (auto split: if_splits)
  have other: "paired (getState type (toggleAttribute attribute type cfg))"
    if "attribute \<noteq> ''teamDetails''" "paired (getState type cfg)"
  proof (cases "attribute = ''team''")
    case True
    then show ?thesis using team by simp
  next
    case False
    with that show ?thesis
      unfolding paired_def by (simp add: selected_toggle_other)
  qed
  have bulk: "paired (getState type (handleToggleAll type selectedKeys tables st cfg))
        = ((''teamDetails'' \<in> set selectedKeys) = (''team'' \<in> set selectedKeys))"
    by (simp add: paired_def selected_handleToggleAll)
  from team other bulk show ?thesis by blast
qed

theorem toggle_pairing_witness:
  "''age'' \<noteq> ''teamDetails'' \<and> paired (getState Info pairedConfig)
   \<and> paired (getState Info (toggleAttribute ''team'' Info pairedConfig))
   \<and> paired (getState Info (toggleAttribute ''age'' Info pairedConfig))
   \<and> getState Info (toggleAttribute ''team'' Info pairedConfig)
       = \<lparr>selected = [], deselected = [''age'', ''team'', ''teamDetails'']\<rparr>
   \<and> getState Info (toggleAttribute ''age'' Info pairedConfig)
       = \<lparr>selected = [''team'', ''teamDetails'', ''age''], deselected = []\<rparr>
   \<and> paired (getState Info
        (handleToggleAll Info [''teamDetails'', ''team''] exampleTables exampleLoaded pairedConfig))"
  using toggle_pairing
    [of Info pairedConfig "''age''" "[''teamDetails'', ''team'']" exampleTables exampleLoaded]
  by (simp add: paired_def toggleAttribute_def pairedConfig_def)

text \<open>
  C5, as stated: a bulk toggle with the empty selection makes the deselected array the
  full key set. This fails when the loaded record has a key without an entry in the
  mapping table: \<open>season\<close> is a key of the hitting record and is not deselected.
\<close>

theorem handleToggleAll_empty_drops_unmapped:
  "hittingStats exampleLoaded = [exampleHitting]
   \<and> map fst exampleHitting = [''season'', ''avg'', ''hr'', ''note'']
   \<and> getState Hitting (handleToggleAll Hitting [] exampleTables exampleLoaded emptyConfig)
       = \<lparr>selected = [], deselected = [''note'', ''hr'', ''avg'']\<rparr>
   \<and> ''season'' \<notin> set (deselected
        (getState Hitting (handleToggleAll Hitting [] exampleTables exampleLoaded emptyConfig)))"
  by (simp add: handleToggleAll_def allKeysOf_def getSortedKeys_def Object_keys_def orderOf_def
      example_defs)

text \<open>
  C5, amended: a bulk toggle whose new selection contains \<open>team\<close> never leaves
  \<open>teamDetails\<close> in the deselected array, whether or not \<open>teamDetails\<close> was among the requested
  keys; and a bulk toggle with the empty selection makes the selected array empty and
  the deselected array the keys of the namespace's loaded record that have an entry
  in the namespace's mapping table, in ascending order of priority (a missing
  priority counting as zero, equal priorities in record order), and empty while no
  record is loaded.
\<close>

theorem handleToggleAll_team_and_empty:
  fixes tables :: MappingTables and r :: "'v jsobject"
  defines "prio \<equiv> \<lambda>m key. case m key of None \<Rightarrow> (0::int)
                             | Some e \<Rightarrow> (case order e of None \<Rightarrow> 0 | Some n \<Rightarrow> n)"
  shows
  "(''team'' \<in> set selectedKeys \<longrightarrow>
      ''teamDetails'' \<notin> set (deselected (getState type (handleToggleAll type selectedKeys tables st cfg))))
   \<and> selected (getState type (handleToggleAll type [] tables st cfg)) = []
   \<and> (playerInfo st = Some r \<longrightarrow>
        deselected (getState Info (handleToggleAll Info [] tables st cfg))
          = sort_key (prio (playerInfoMappings tables))
              (filter (\<lambda>key. playerInfoMappings tables key \<noteq> None) (map fst r))
        \<and> set (deselected (getState Info (handleToggleAll Info [] tables st cfg)))
            = {key \<in> fst ` set r. playerInfoMappings tables key \<noteq> None})
   \<and> (hittingStats st = r # rest \<longrightarrow>
        deselected (getState Hitting (handleToggleAll Hitting [] tables st cfg))
          = sort_key (prio (hittingStatMappings tables))
              (filter (\<lambda>key. hittingStatMappings tables key \<noteq> None) (map fst r))
        \<and> set (deselected (getState Hitting (handleToggleAll Hitting [] tables st cfg)))
            = {key \<in> fst ` set r. hittingStatMappings tables key \<noteq> None})
   \<and> (pitchingStats st = r # rest \<longrightarrow>
        deselected (getState Pitching (handleToggleAll Pitching [] tables st cfg))
          = sort_key (prio (pitchingStatMappings tables))
              (filter (\<lambda>key. pitchingStatMappings tables key \<noteq> None) (map fst r))
        \<and> set (deselected (getState Pitching (handleToggleAll Pitching [] tables st cfg)))
            = {key \<in> fst ` set r. pitchingStatMappings tables key \<noteq> None})
   \<and> (playerInfo st = None \<longrightarrow>
        deselected (getState Info (handleToggleAll Info [] tables st cfg)) = [])
   \<and> (hittingStats st = [] \<longrightarrow>
        deselected (getState Hitting (handleToggleAll Hitting [] tables st cfg)) = [])
   \<and> (pitchingStats st = [] \<longrightarrow>
        deselected (getState Pitching (handleToggleAll Pitching [] tables st cfg)) = [])"
proof -
  have prio: "prio m = orderOf m" for m
    by (rule ext) (simp add: prio_def orderOf_def)
  have des: "deselected (getState ty (handleToggleAll ty [] tables st cfg)) = allKeysOf ty tables st"
    for ty
    by (simp add: handleToggleAll_def Let_def getState_onStatsChange)
  have team: "''team'' \<in> set selectedKeys \<Longrightarrow>
      ''teamDetails'' \<notin> set (deselected (getState type (handleToggleAll type selectedKeys tables st cfg)))"
    by (auto simp: handleToggleAll_def Let_def getState_onStatsChange)
  have sel: "selected (getState type (handleToggleAll type [] tables st cfg)) = []"
    by (simp add: handleToggleAll_def Let_def getState_onStatsChange)
  have i: "allKeysOf Info tables st
             = sort_key (prio (playerInfoMappings tables))
                 (filter (\<lambda>key. playerInfoMappings tables key \<noteq> None) (map fst r))"
    if "playerInfo st = Some r"
    using that by (simp add: allKeysOf_def getSortedKeys_def Object_keys_def prio)
  have h: "allKeysOf Hitting tables st
             = sort_key (prio (hittingStatMappings tables))
                 (filter (\<lambda>key. hittingStatMappings tables key \<noteq> None) (map fst r))"
    if "hittingStats st = r # rest"
    using that by (simp add: allKeysOf_def getSortedKeys_def Object_keys_def prio)
  have p: "allKeysOf Pitching tables st
             = sort_key (prio (pitchingStatMappings tables))
                 (filter (\<lambda>key. pitchingStatMappings tables key \<noteq> None) (map fst r))"
    if "pitchingStats st = r # rest"
    using that by (simp add: allKeysOf_def getSortedKeys_def Object_keys_def prio)
  have si: "set (allKeysOf Info tables st) = {key \<in> fst ` set r. playerInfoMappings tables key \<noteq> None}"
    if "playerInfo st = Some r"
    using i [OF that] by auto
  have sh: "set (allKeysOf Hitting tables st) = {key \<in> fst ` set r. hittingStatMappings tables key \<noteq> None}"
    if "hittingStats st = r # rest"
    using h [OF that] by auto
  have sp: "set (allKeysOf Pitching tables st) = {key \<in> fst ` set r. pitchingStatMappings tables key \<noteq> None}"
    if "pitchingStats st = r # rest"
    using p [OF that] by auto
  show ?thesis
    unfolding des
    using team sel i h p si sh sp allKeysOf_not_loaded [of st tables]
    by blast
qed

theorem handleToggleAll_team_and_empty_witness:
  "''team'' \<in> set [''team'', ''age'']
   \<and> getState Info (handleToggleAll Info [''team'', ''age''] exampleTables exampleLoaded emptyConfig)
       = \<lparr>selected = [''team'', ''age''], deselected = []\<rparr>
   \<and> playerInfo exampleLoaded = Some exampleInfo
   \<and> getState Info (handleToggleAll Info [] exampleTables exampleLoaded emptyConfig)
       = \<lparr>selected = [], deselected = [''age'', ''team'', ''teamDetails'']\<rparr>
   \<and> hittingStats exampleLoaded = [exampleHitting]
   \<and> getState Hitting (handleToggleAll Hitting [] exampleTables exampleLoaded emptyConfig)
       = \<lparr>selected = [], deselected = [''note'', ''hr'', ''avg'']\<rparr>
   \<and> pitchingStats exampleLoaded = [examplePitching]
   \<and> getState Pitching (handleToggleAll Pitching [] exampleTables exampleLoaded emptyConfig)
       = \<lparr>selected = [], deselected = [''era'', ''wins'']\<rparr>
   \<and> playerInfo notLoaded = None \<and> hittingStats notLoaded = [] \<and> pitchingStats notLoaded = []
   \<and> getState Info (handleToggleAll Info [] exampleTables notLoaded emptyConfig)
       = \<lparr>selected = [], deselected = []\<rparr>"
  using
    handleToggleAll_team_and_empty
      [of "[''team'', ''age'']" Info exampleTables exampleLoaded emptyConfig exampleInfo "[]"]
    handleToggleAll_team_and_empty
      [of "[''team'', ''age'']" Hitting exampleTables exampleLoaded emptyConfig exampleHitting "[]"]
    handleToggleAll_team_and_empty
      [of "[''team'', ''age'']" Pitching exampleTables exampleLoaded emptyConfig examplePitching "[]"]
    handleToggleAll_team_and_empty
      [of "[''team'', ''age'']" Info exampleTables notLoaded emptyConfig exampleInfo "[]"]
  by (simp add: handleToggleAll_def allKeysOf_def getSortedKeys_def Object_keys_def orderOf_def
      example_defs)

section \<open>Initialisation\<close>

lemma info_initializeSelections:
  "info (initializeSelections tables pinfo d cfg)
     = \<lparr>selected = [], deselected = Object_keys pinfo\<rparr>"
  by (cases "data_hittingStats d"; cases "data_pitchingStats d")
     (simp_all add: initializeSelections_def Let_def)

lemma hitting_initializeSelections:
  "data_hittingStats d = first # rest \<Longrightarrow>
   selected (hitting cfg) = [] \<Longrightarrow> deselected (hitting cfg) = [] \<Longrightarrow>
   hitting (initializeSelections tables pinfo d cfg)
     = \<lparr>selected = filter (\<lambda>key. hittingStatMappings tables key \<noteq> None) (Object_keys first),
        deselected = []\<rparr>"
  by (cases "data_pitchingStats d") (simp_all add: initializeSelections_def Let_def)

lemma pitching_initializeSelections:
  "data_pitchingStats d = first # rest \<Longrightarrow>
   selected (pitching cfg) = [] \<Longrightarrow> deselected (pitching cfg) = [] \<Longrightarrow>
   pitching (initializeSelections tables pinfo d cfg)
     = \<lparr>selected = filter (\<lambda>key. pitchingStatMappings tables key \<noteq> None) (Object_keys first),
        deselected = []\<rparr>"
  by (cases "data_hittingStats d") (simp_all add: initializeSelections_def Let_def)

lemma initializeSelections_guarded:
  "selected (hitting cfg) \<noteq> [] \<or> deselected (hitting cfg) \<noteq> [] \<Longrightarrow>
     hitting (initializeSelections tables pinfo d cfg) = hitting cfg"
  "selected (pitching cfg) \<noteq> [] \<or> deselected (pitching cfg) \<noteq> [] \<Longrightarrow>
     pitching (initializeSelections tables pinfo d cfg) = pitching cfg"
  by (cases "data_hittingStats d"; cases "data_pitchingStats d";
      auto simp add: initializeSelections_def Let_def)+

lemma loadPlayerData_Returns:
  "playerId \<noteq> 0 \<Longrightarrow> fetchPlayerData playerId = Returns d \<Longrightarrow> data_playerInfo d = Some pinfo \<Longrightarrow>
   snd (loadPlayerData fetchPlayerData tables playerId True st cfg)
     = initializeSelections tables pinfo d cfg"
  by (simp add: loadPlayerData_def Let_def)

text \<open>The hitting and pitching arrays survive a load once either array of the namespace
  is non-empty, whatever the provider answers.\<close>

lemma loadPlayerData_guarded:
  "selected (hitting cfg) \<noteq> [] \<or> deselected (hitting cfg) \<noteq> [] \<Longrightarrow>
     hitting (snd (loadPlayerData fetchPlayerData tables playerId configurable st cfg)) = hitting cfg"
  "selected (pitching cfg) \<noteq> [] \<or> deselected (pitching cfg) \<noteq> [] \<Longrightarrow>
     pitching (snd (loadPlayerData fetchPlayerData tables playerId configurable st cfg)) = pitching cfg"
  by (auto simp: loadPlayerData_def Let_def initializeSelections_guarded
      split: fetched.splits thrown.splits option.splits)

text \<open>
  C2. When the creator's component loads a player whose biographical record is present,
  the info namespace ends with no key selected and every key of the record
  deselected.
\<close>

theorem loadPlayerData_info_all_deselected:
  assumes "playerId \<noteq> 0" and "fetchPlayerData playerId = Returns d"
    and "data_playerInfo d = Some pinfo"
  shows "info (snd (loadPlayerData fetchPlayerData tables playerId True st cfg))
           = \<lparr>selected = [], deselected = Object_keys pinfo\<rparr>"
  using assms by (simp add: loadPlayerData_Returns info_initializeSelections)

theorem loadPlayerData_info_all_deselected_witness:
  "(7::int) \<noteq> 0 \<and> (\<lambda>_. Returns exampleData) (7::int) = Returns exampleData
   \<and> data_playerInfo exampleData = Some exampleInfo
   \<and> info (snd (loadPlayerData (\<lambda>_. Returns exampleData) exampleTables 7 True notLoaded emptyConfig))
       = \<lparr>selected = [], deselected = [''age'', ''team'', ''teamDetails'']\<rparr>"
  using loadPlayerData_info_all_deselected
    [of 7 "\<lambda>_. Returns exampleData" exampleData exampleInfo exampleTables notLoaded emptyConfig]
  by (simp add: exampleData_def exampleInfo_def Object_keys_def)

text \<open>
  C3. A load over a non-empty info state is not a no-op: the creator's info selection
  \<open>team\<close>, \<open>teamDetails\<close> is replaced by the all-deselected default, while the non-empty
  hitting and pitching states of the same configuration are left as they were.
\<close>

theorem loadPlayerData_resets_info:
  "getState Info pairedConfig = \<lparr>selected = [''team'', ''teamDetails''], deselected = [''age'']\<rparr>
   \<and> getState Info
        (snd (loadPlayerData (\<lambda>_. Returns exampleData) exampleTables 7 True exampleLoaded pairedConfig))
       = \<lparr>selected = [], deselected = [''age'', ''team'', ''teamDetails'']\<rparr>
   \<and> getState Hitting
        (snd (loadPlayerData (\<lambda>_. Returns exampleData) exampleTables 7 True exampleLoaded pairedConfig))
       = getState Hitting pairedConfig
   \<and> getState Pitching
        (snd (loadPlayerData (\<lambda>_. Returns exampleData) exampleTables 7 True exampleLoaded pairedConfig))
       = getState Pitching pairedConfig"
  by (simp add: loadPlayerData_def initializeSelections_def Object_keys_def example_defs)

text \<open>
  C4. When the creator's component loads a player and a stats namespace (hitting or
  pitching) has a first record and both of its arrays are empty, the namespace ends
  with exactly the mapped keys of that record selected, in record order, and nothing
  deselected: the two arrays together hold the mapped keys of the record and share no
  key, so an unmapped key is in neither.
\<close>

theorem loadPlayerData_stats_all_mapped_selected:
  assumes "playerId \<noteq> 0" and "fetchPlayerData playerId = Returns d"
    and "data_playerInfo d = Some pinfo"
    and "cfg' = snd (loadPlayerData fetchPlayerData tables playerId True st cfg)"
  shows
    "(data_hittingStats d = first # rest \<and> hitting cfg = \<lparr>selected = [], deselected = []\<rparr> \<longrightarrow>
        selected (hitting cfg')
          = filter (\<lambda>key. hittingStatMappings tables key \<noteq> None) (Object_keys first)
        \<and> deselected (hitting cfg') = []
        \<and> set (selected (hitting cfg')) \<union> set (deselected (hitting cfg'))
            = {key \<in> set (Object_keys first). hittingStatMappings tables key \<noteq> None}
        \<and> set (selected (hitting cfg')) \<inter> set (deselected (hitting cfg')) = {})
     \<and> (data_pitchingStats d = first # rest \<and> pitching cfg = \<lparr>selected = [], deselected = []\<rparr> \<longrightarrow>
        selected (pitching cfg')
          = filter (\<lambda>key. pitchingStatMappings tables key \<noteq> None) (Object_keys first)
        \<and> deselected (pitching cfg') = []
        \<and> set (selected (pitching cfg')) \<union> set (deselected (pitching cfg'))
            = {key \<in> set (Object_keys first). pitchingStatMappings tables key \<noteq> None}
        \<and> set (selected (pitching cfg')) \<inter> set (deselected (pitching cfg')) = {})"
proof -
  have load: "cfg' = initializeSelections tables pinfo d cfg"
    using assms by (simp add: loadPlayerData_Returns)
  have h: "hitting cfg'
             = \<lparr>selected = filter (\<lambda>key. hittingStatMappings tables key \<noteq> None) (Object_keys first),
                deselected = []\<rparr>"
    if "data_hittingStats d = first # rest" "hitting cfg = \<lparr>selected = [], deselected = []\<rparr>"
    using that load by (simp add: hitting_initializeSelections)
  have p: "pitching cfg'
             = \<lparr>selected = filter (\<lambda>key. pitchingStatMappings tables key \<noteq> None) (Object_keys first),
                deselected = []\<rparr>"
    if "data_pitchingStats d = first # rest" "pitching cfg = \<lparr>selected = [], deselected = []\<rparr>"
    using that load by (simp add: pitching_initializeSelections)
  show ?thesis
  proof (intro conjI impI)
    assume a: "data_hittingStats d = first # rest \<and> hitting cfg = \<lparr>selected = [], deselected = []\<rparr>"
    then have e: "hitting cfg'
             = \<lparr>selected = filter (\<lambda>key. hittingStatMappings tables key \<noteq> None) (Object_keys first),
                deselected = []\<rparr>"
      using h by blast
    show "selected (hitting cfg')
          = filter (\<lambda>key. hittingStatMappings tables key \<noteq> None) (Object_keys first)"
      by (simp add: e)
    show "deselected (hitting cfg') = []" by (simp add: e)
    show "set (selected (hitting cfg')) \<union> set (deselected (hitting cfg'))
            = {key \<in> set (Object_keys first). hittingStatMappings tables key \<noteq> None}"
      by (simp add: e)
    show "set (selected (hitting cfg')) \<inter> set (deselected (hitting cfg')) = {}"
      by (simp add: e)
  next
    assume a: "data_pitchingStats d = first # rest \<and> pitching cfg = \<lparr>selected = [], deselected = []\<rparr>"
    then have e: "pitching cfg'
             = \<lparr>selected = filter (\<lambda>key. pitchingStatMappings tables key \<noteq> None) (Object_keys first),
                deselected = []\<rparr>"
      using p by blast
    show "selected (pitching cfg')
          = filter (\<lambda>key. pitchingStatMappings tables key \<noteq> None) (Object_keys first)"
      by (simp add: e)
    show "deselected (pitching cfg') = []" by (simp add: e)
    show "set (selected (pitching cfg')) \<union> set (deselected (pitching cfg'))
            = {key \<in> set (Object_keys first). pitchingStatMappings tables key \<noteq> None}"
      by (simp add: e)
    show "set (selected (pitching cfg')) \<inter> set (deselected (pitching cfg')) = {}"
      by (simp add: e)
  qed
qed

theorem loadPlayerData_stats_all_mapped_selected_witness:
  "(7::int) \<noteq> 0
   \<and> data_hittingStats exampleData = [exampleHitting]
   \<and> data_pitchingStats exampleData = [examplePitching]
   \<and> hitting emptyConfig = \<lparr>selected = [], deselected = []\<rparr>
   \<and> pitching emptyConfig = \<lparr>selected = [], deselected = []\<rparr>
   \<and> hitting (snd (loadPlayerData (\<lambda>_. Returns exampleData) exampleTables 7 True notLoaded emptyConfig))
       = \<lparr>selected = [''avg'', ''hr'', ''note''], deselected = []\<rparr>
   \<and> pitching (snd (loadPlayerData (\<lambda>_. Returns exampleData) exampleTables 7 True notLoaded emptyConfig))
       = \<lparr>selected = [''wins'', ''era''], deselected = []\<rparr>"
  using
    loadPlayerData_stats_all_mapped_selected
      [where playerId = 7 and fetchPlayerData = "\<lambda>_. Returns exampleData" and d = exampleData
         and pinfo = exampleInfo and tables = exampleTables and st = notLoaded
         and cfg = emptyConfig and first = exampleHitting and rest = "[]", OF _ _ _ refl]
    loadPlayerData_stats_all_mapped_selected
      [where playerId = 7 and fetchPlayerData = "\<lambda>_. Returns exampleData" and d = exampleData
         and pinfo = exampleInfo and tables = exampleTables and st = notLoaded
         and cfg = emptyConfig and first = examplePitching and rest = "[]", OF _ _ _ refl]
  by (simp add: example_defs Object_keys_def)

section \<open>Reveal events\<close>


lemma mountHook_eq:
  "mountHook stats
     = \<lparr>newlyRevealed = {}, timeoutPending = False, previousStats = set stats, isMounted = True\<rparr>"
  by (simp add: mountHook_def mountEffect_def statsEffect_def initialHook_def newStatsOf_def)

lemma statsChanged_unfold:
  "isMounted h \<Longrightarrow>
   statsChanged stats h =
     (if newStatsOf (previousStats h) stats = []
      then h\<lparr>timeoutPending := False, previousStats := set stats\<rparr>
      else h\<lparr>timeoutPending := True, previousStats := set stats,
             newlyRevealed := set (newStatsOf (previousStats h) stats)\<rparr>)"
  by (simp add: statsChanged_def statsEffect_def statsCleanup_def Let_def)











text \<open>The cleanup clears the timer, so a key revealed and at once deselected stays in the
  returned set with no timer left to empty it.\<close>

lemma stale_reveal:
  "newlyRevealed (runHook [''a''] [StatsChanged [''a'', ''b''], StatsChanged [''a'']]) = {''b''}
   \<and> timeoutPending (runHook [''a''] [StatsChanged [''a'', ''b''], StatsChanged [''a'']]) = False"
  by (simp add: runHook_def mountHook_eq statsChanged_unfold newStatsOf_def)



section \<open>Ordering of keys\<close>

lemma sorted_getSortedKeys: "sorted (map (orderOf m) (getSortedKeys obj m))"
  by (simp add: getSortedKeys_def)

lemma stable_getSortedKeys:
  "filter (\<lambda>key. orderOf m key = p) (getSortedKeys obj m)
     = filter (\<lambda>key. orderOf m key = p) (filter (\<lambda>key. m key \<noteq> None) (Object_keys obj))"
  by (simp add: getSortedKeys_def sort_key_stable)

lemma orderOf_no_priority: "m a = Some e \<Longrightarrow> order e = None \<Longrightarrow> orderOf m a = 0"
  by (simp add: orderOf_def)

lemma getSortedKeys_position:
  assumes "i < length (getSortedKeys obj m)" and "j < length (getSortedKeys obj m)"
    and "orderOf m (getSortedKeys obj m ! i) < orderOf m (getSortedKeys obj m ! j)"
  shows "i < j"
proof (rule ccontr)
  let ?ks = "getSortedKeys obj m"
  assume "\<not> i < j"
  then have "j \<le> i" by simp
  moreover have "i < length (map (orderOf m) ?ks)" using assms(1) by simp
  ultimately have "map (orderOf m) ?ks ! j \<le> map (orderOf m) ?ks ! i"
    using sorted_getSortedKeys [of m obj] by (rule sorted_nth_mono [rotated])
  then have "orderOf m (?ks ! j) \<le> orderOf m (?ks ! i)"
    using assms(1,2) by simp
  with assms(3) show False by simp
qed

text \<open>
  C7, as stated: a key whose entry has no explicit priority sorts last. This fails: the
  default priority is zero and the order ascending, so such a key comes before a key
  of positive priority.
\<close>

theorem getSortedKeys_default_first:
  "getSortedKeys [(''hr'', ()), (''note'', ())]
      (map_of [(''hr'', \<lparr>label = ''HR'', order = Some 4\<rparr>),
               (''note'', \<lparr>label = ''Note'', order = None\<rparr>)])
     = [''note'', ''hr'']"
  by (simp add: getSortedKeys_def Object_keys_def orderOf_def)

text \<open>
  C7, amended: the enumeration holds the mapped keys of the record in ascending order
  of priority, keys of equal priority in record order; a key whose entry has no
  explicit priority has priority zero; and a key of smaller priority stands before a
  key of larger priority, so a key without explicit priority stands before every key
  of positive priority.
\<close>

theorem getSortedKeys_ascending:
  "sorted (map (orderOf m) (getSortedKeys obj m))
   \<and> set (getSortedKeys obj m) = {key \<in> set (Object_keys obj). m key \<noteq> None}
   \<and> filter (\<lambda>key. orderOf m key = p) (getSortedKeys obj m)
       = filter (\<lambda>key. orderOf m key = p) (filter (\<lambda>key. m key \<noteq> None) (Object_keys obj))
   \<and> (m a = Some e \<and> order e = None \<longrightarrow> orderOf m a = 0)
   \<and> (i < length (getSortedKeys obj m) \<and> j < length (getSortedKeys obj m)
        \<and> orderOf m (getSortedKeys obj m ! i) < orderOf m (getSortedKeys obj m ! j) \<longrightarrow> i < j)"
  using sorted_getSortedKeys [of m obj] set_getSortedKeys [of obj m]
    stable_getSortedKeys [of m p obj]
    orderOf_no_priority [of m a e] getSortedKeys_position [of i obj m j]
  by blast

theorem getSortedKeys_ascending_witness:
  "getSortedKeys exampleHitting (hittingStatMappings exampleTables) = [''note'', ''hr'', ''avg'']
   \<and> hittingStatMappings exampleTables ''note'' = Some \<lparr>label = ''Note'', order = None\<rparr>
   \<and> order \<lparr>label = ''Note'', order = None\<rparr> = None
   \<and> orderOf (hittingStatMappings exampleTables) ''note'' = 0
   \<and> orderOf (hittingStatMappings exampleTables) ''hr'' = 4
   \<and> (0::nat) < length (getSortedKeys exampleHitting (hittingStatMappings exampleTables))
   \<and> (1::nat) < length (getSortedKeys exampleHitting (hittingStatMappings exampleTables))
   \<and> (0::nat) < 1"
  using getSortedKeys_ascending
    [of "hittingStatMappings exampleTables" exampleHitting 4 "''note''"
        "\<lparr>label = ''Note'', order = None\<rparr>" 0 1]
  by (simp add: getSortedKeys_def Object_keys_def orderOf_def example_defs)

section \<open>Player search\<close>

text \<open>
  C9. A query of fewer than two characters sends nothing to the provider, neither
  through \<open>searchPlayers\<close> nor through \<open>handleSearch\<close>, and \<open>searchPlayers\<close> sets the result list
  to empty.
\<close>

theorem short_query_no_provider_call:
  assumes "length query < 2"
  shows "providerCalls (searchPlayers provider query s) = providerCalls s
         \<and> players (searchPlayers provider query s) = []
         \<and> providerCalls (handleSearch provider query s) = providerCalls s"
  using assms by (simp add: searchPlayers_def handleSearch_def Let_def)

theorem short_query_no_provider_call_witness:
  "length ''a'' < 2
   \<and> providerCalls (searchPlayers exampleProvider ''a'' exampleSearch) = [''ab'']
   \<and> players (searchPlayers exampleProvider ''a'' exampleSearch) = []
   \<and> providerCalls (handleSearch exampleProvider ''a'' exampleSearch) = [''ab'']"
  using short_query_no_provider_call [of "''a''" exampleProvider exampleSearch]
  by (simp add: exampleSearch_def)

text \<open>Through \<open>handleSearch\<close> a short query closes the popup and leaves the stored list as
  it was; a query of two characters or more goes to the provider.\<close>

lemma handleSearch_short:
  "length v < 2 \<Longrightarrow> handleSearch provider v s = s\<lparr>search := v, popupOpen := False\<rparr>"
  by (simp add: handleSearch_def Let_def)

lemma handleSearch_long:
  "length v \<ge> 2 \<Longrightarrow> providerCalls (handleSearch provider v s) = providerCalls s @ [v]"
  by (auto simp: handleSearch_def searchPlayers_def Let_def split: searchResponse.splits)

section \<open>Creating a guess\<close>






section \<open>The earlier revision\<close>

text \<open>In the earlier revision a toggle of \<open>team\<close> leaves \<open>teamDetails\<close> where it is, a load
  selects every info key, and a bulk toggle has no tie-break.\<close>

lemma rev0_differs:
  "getState Info (toggleAttribute_rev0 ''team'' Info pairedConfig)
     = \<lparr>selected = [''teamDetails''], deselected = [''age'', ''team'']\<rparr>"
  "getState Info (initializeSelections_rev0 True exampleData emptyConfig)
     = \<lparr>selected = [''age'', ''team'', ''teamDetails''], deselected = []\<rparr>"
  "getState Info (handleToggleAll_rev0 Info [''team''] exampleLoaded emptyConfig)
     = \<lparr>selected = [''team''], deselected = [''age'', ''teamDetails'']\<rparr>"
  by (simp_all add: toggleAttribute_rev0_def initializeSelections_rev0_def handleToggleAll_rev0_def
      Object_keys_def example_defs)

end
